theory Spec2Isabelle
  imports Main
begin

section \<open>Plain JavaScript objects used as dictionaries\<close>

text \<open>
  The server keeps its three registries and its capability sets in plain objects
  (\<^verbatim>\<open>private _registeredTools: { [name: string]: RegisteredTool } = {}\<close>).
  A plain object is modelled by its own properties in creation order. Three facts of the
  language matter to the code and are part of the model:
  \<^item> a property read \<^verbatim>\<open>obj[k]\<close> that finds no own property continues in
    \<^verbatim>\<open>Object.prototype\<close>, whose properties are all functions or objects;
  \<^item> \<^verbatim>\<open>Object.entries\<close> and \<^verbatim>\<open>Object.values\<close> list the own
    properties whose keys are canonical array indices first, in ascending numeric order,
    and every other key after them in creation order;
  \<^item> an assignment to a key that is already an own property keeps its position.
\<close>

type_synonym 'v jsobject = "(string \<times> 'v) list"

definition Object_prototype_keys :: "string list" where
  "Object_prototype_keys =
     [''constructor'', ''__defineGetter__'', ''__defineSetter__'', ''hasOwnProperty'',
      ''__lookupGetter__'', ''__lookupSetter__'', ''isPrototypeOf'',
      ''propertyIsEnumerable'', ''toString'', ''valueOf'', ''__proto__'',
      ''toLocaleString'']"

datatype 'v property = Undefined | Inherited | Own 'v

definition obj_get :: "'v jsobject \<Rightarrow> string \<Rightarrow> 'v property" where
  "obj_get obj k =
     (case map_of obj k of
        Some v \<Rightarrow> Own v
      | None \<Rightarrow> if List.member Object_prototype_keys k then Inherited else Undefined)"

text \<open>
  Every value stored in the objects of this file is itself an object, and every property
  of \<^verbatim>\<open>Object.prototype\<close> is a function or an object, so a read is falsy
  exactly when it is \<^verbatim>\<open>undefined\<close>.
\<close>

definition truthy :: "'v property \<Rightarrow> bool" where
  "truthy p = (case p of Undefined \<Rightarrow> False | Inherited \<Rightarrow> True | Own v \<Rightarrow> True)"

text \<open>
  \<^verbatim>\<open>obj[k] = v\<close>. The server assigns only after the read of the same key was
  falsy, so the key is never one of \<^verbatim>\<open>Object.prototype\<close>.
\<close>

fun obj_set :: "'v jsobject \<Rightarrow> string \<Rightarrow> 'v \<Rightarrow> 'v jsobject" where
  "obj_set [] k v = [(k, v)]"
| "obj_set ((k', v') # ps) k v =
     (if k' = k then (k, v) # ps else (k', v') # obj_set ps k v)"

definition is_digit :: "char \<Rightarrow> bool" where
  "is_digit c = (let n = (of_char c :: nat) in 48 \<le> n \<and> n \<le> 57)"

definition index_value :: "string \<Rightarrow> nat" where
  "index_value s = foldl (\<lambda>n c. 10 * n + (of_char c - 48)) 0 s"

text \<open>A canonical array index: a decimal numeral without leading zero, below \<open>2^32 - 1\<close>.\<close>

definition is_array_index :: "string \<Rightarrow> bool" where
  "is_array_index s =
     (case s of
        [] \<Rightarrow> False
      | c # cs \<Rightarrow>
          list_all is_digit s \<and> (if c = CHR ''0'' then cs = [] else True) \<and>
          index_value s < 4294967295)"

definition Object_entries :: "'v jsobject \<Rightarrow> (string \<times> 'v) list" where
  "Object_entries obj =
     sort_key (\<lambda>(k, v). index_value k) (filter (\<lambda>(k, v). is_array_index k) obj) @
     filter (\<lambda>(k, v). \<not> is_array_index k) obj"

definition Object_values :: "'v jsobject \<Rightarrow> 'v list" where
  "Object_values obj = map snd (Object_entries obj)"

text \<open>Object spread \<^verbatim>\<open>{ ...a, ...b }\<close>: the properties of \<open>b\<close> are assigned onto a copy of \<open>a\<close>.\<close>

definition spread :: "'v jsobject \<Rightarrow> 'v jsobject \<Rightarrow> 'v jsobject" where
  "spread a b = foldl (\<lambda>acc (k, v). obj_set acc k v) a (Object_entries b)"

text \<open>Spreading \<^verbatim>\<open>undefined\<close> adds nothing.\<close>

definition spread_opt :: "'v jsobject \<Rightarrow> 'v jsobject option \<Rightarrow> 'v jsobject" where
  "spread_opt a b = (case b of None \<Rightarrow> a | Some m \<Rightarrow> spread a m)"

section \<open>Values exchanged with the external engines\<close>

datatype json =
    JNull
  | JBool bool
  | JNum int
  | JStr string
  | JArr "json list"
  | JObj "(string \<times> json) list"

text \<open>
  A thrown value (or the reason of a rejected promise): an \<^verbatim>\<open>Error\<close> with its
  message, or any other value, given by its \<^verbatim>\<open>String(...)\<close> form.
\<close>

datatype fault = ErrorInstance string | NonError string

text \<open>How a call of an application callback ends.\<close>

datatype 'a completion = Returned 'a | Thrown fault

datatype ErrorCode = InvalidParams

text \<open>
  What a method of the server throws: a plain \<^verbatim>\<open>Error\<close>, an
  \<^verbatim>\<open>McpError\<close> with its code, the \<^verbatim>\<open>TypeError\<close> of the URL
  constructor, or the fault of a callback that the method lets through.
\<close>

datatype error =
    Error string
  | McpError ErrorCode string
  | TypeError string
  | Uncaught fault

text \<open>Every callback a request handler invokes, in order, with its arguments.\<close>

type_synonym RequestHandlerExtra = json

datatype URL = URL (href: string)

type_synonym Variables = "(string \<times> string) list"

datatype invocation =
    ToolCallbackInvoked string "json option" RequestHandlerExtra
  | ResourceReadInvoked string URL
  | TemplateReadInvoked string URL Variables
  | TemplateListInvoked string

type_synonym 'a handled = "invocation list \<times> (error + 'a)"

subsection \<open>Tools\<close>

datatype content = TextContent string | OtherContent json

record CallToolResult =
  content :: "content list"
  isError :: "bool option"

text \<open>
  The schema engine (zod) is external. A schema object is given by what the engine does
  with it: the result of \<^verbatim>\<open>safeParseAsync\<close> on an input, and its rendering
  by \<^verbatim>\<open>zodToJsonSchema\<close>. A raw shape is given by the schema
  \<^verbatim>\<open>z.object\<close> builds from it.
\<close>

datatype SafeParseReturnType = SafeParseSuccess json | SafeParseError string

datatype AnyZodObject =
  ZodObject (safeParseAsync: "json option \<Rightarrow> SafeParseReturnType") (zodToJsonSchema: json)

datatype ZodRawShape = ZodRawShape (z_object: AnyZodObject)

text \<open>
  \<^verbatim>\<open>ToolCallback\<close>: called as \<^verbatim>\<open>cb(args, extra)\<close> for a tool with
  an input schema (\<open>Some args\<close>) and as \<^verbatim>\<open>cb(extra)\<close> for one without
  (\<open>None\<close>).
\<close>

type_synonym ToolCallback = "json option \<Rightarrow> RequestHandlerExtra \<Rightarrow> CallToolResult completion"

record RegisteredTool =
  description :: "string option"
  inputSchema :: "AnyZodObject option"
  callback :: ToolCallback

record CallToolRequest =
  tool_name :: string
  arguments :: "json option"

record Tool =
  name :: string
  description :: "string option"
  inputSchema :: json

definition EMPTY_OBJECT_JSON_SCHEMA :: json where
  "EMPTY_OBJECT_JSON_SCHEMA = JObj [(''type'', JStr ''object'')]"

subsection \<open>Resources\<close>

type_synonym Resource = "json jsobject"

type_synonym ResourceMetadata = "json jsobject"

type_synonym ReadResourceResult = json

type_synonym ReadResourceCallback =
  "URL \<Rightarrow> Variables option \<Rightarrow> ReadResourceResult completion"

record ListResourcesResult =
  resources :: "Resource list"

text \<open>\<^verbatim>\<open>ListResourcesCallback\<close> takes no argument: it is given by how its call ends.\<close>

type_synonym ListResourcesCallback = "ListResourcesResult completion"

record RegisteredResource =
  name :: string
  metadata :: "ResourceMetadata option"
  readCallback :: ReadResourceCallback

text \<open>
  The address-template engine is external: a template is given by its string form and by
  the result of \<^verbatim>\<open>match\<close> on an address (\<open>None\<close> for \<^verbatim>\<open>null\<close>).
\<close>

datatype UriTemplate =
  UriTemplate (toString: string) (match: "string \<Rightarrow> Variables option")

record RegisteredResourceTemplate =
  uriTemplate :: UriTemplate
  metadata :: "ResourceMetadata option"
  listCallback :: "ListResourcesCallback option"
  readCallback :: ReadResourceCallback

subsection \<open>Capabilities and the handshake\<close>

text \<open>A capability set: an object from feature name to the object of its sub-options.\<close>

type_synonym Capabilities = "json jsobject jsobject"

datatype Implementation = Implementation string string

record InitializeRequest =
  protocolVersion :: string
  capabilities :: Capabilities
  clientInfo :: Implementation

record InitializeResult =
  protocolVersion :: string
  capabilities :: Capabilities
  serverInfo :: Implementation

section \<open>The server\<close>

text \<open>
  The request handlers the server class installs. Each is a closure over the server that
  the source creates anew at every installation; what it does depends only on which of
  these functions it is and on the server it runs against, so it is given by its name.
\<close>

datatype handler =
    InitializeHandler
  | ListToolsHandler
  | CallToolHandler
  | ListResourcesHandler
  | ListResourceTemplatesHandler
  | ReadResourceHandler

datatype message = OutRequest string | OutNotification string

text \<open>
  The fields of the class \<^verbatim>\<open>Server\<close>, and of its base class those the
  source reads or writes: whether a transport is attached, the installed request
  handlers by method, and the messages handed to the transport so far.
\<close>

record Server =
  transport :: bool
  requestHandlers :: "string \<rightharpoonup> handler"
  sent :: "message list"
  clientCapabilities :: "Capabilities option"
  clientVersion :: "Implementation option"
  capabilities :: Capabilities
  serverInfo :: Implementation
  registeredTools :: "RegisteredTool jsobject"
  registeredResources :: "RegisteredResource jsobject"
  registeredResourceTemplates :: "RegisteredResourceTemplate jsobject"

text \<open>A method that mutates the server: the server afterwards, and the error it threw, if any.\<close>

type_synonym 'a outcome = "Server \<times> (error + 'a)"

definition and_then :: "(Server \<Rightarrow> unit outcome) \<Rightarrow> (Server \<Rightarrow> unit outcome) \<Rightarrow> Server \<Rightarrow> unit outcome" where
  "and_then f g s = (case f s of (s', Inl e) \<Rightarrow> (s', Inl e) | (s', Inr u) \<Rightarrow> g s')"

subsection \<open>Capabilities\<close>

text \<open>
  Modelled from the spec: \<^verbatim>\<open>mergeCapabilities\<close> is imported from
  \<^verbatim>\<open>shared/protocol\<close>, which is not among the sources. The spec describes it
  as a union per feature that never drops a feature declared before: a feature of both
  sets keeps the sub-options of both, those of the second set written last.
\<close>

definition mergeCapabilities :: "Capabilities \<Rightarrow> Capabilities \<Rightarrow> Capabilities" where
  "mergeCapabilities base additional =
     foldl (\<lambda>acc (k, v). obj_set acc k (case obj_get acc k of Own old \<Rightarrow> spread old v | _ \<Rightarrow> v))
       base (Object_entries additional)"

definition registerCapabilities :: "Capabilities \<Rightarrow> Server \<Rightarrow> unit outcome" where
  "registerCapabilities caps s =
     (if transport s then
        (s, Inl (Error ''Cannot register capabilities after connecting to transport''))
      else (s\<lparr>Server.capabilities := mergeCapabilities (Server.capabilities s) caps\<rparr>, Inr ()))"

definition getCapabilities :: "Server \<Rightarrow> Capabilities" where
  "getCapabilities s = Server.capabilities s"

text \<open>\<^verbatim>\<open>this._clientCapabilities?.feature\<close>\<close>

definition client_capability :: "Server \<Rightarrow> string \<Rightarrow> json jsobject property" where
  "client_capability s feature =
     (case clientCapabilities s of None \<Rightarrow> Undefined | Some c \<Rightarrow> obj_get c feature)"

text \<open>\<^verbatim>\<open>this._capabilities.feature\<close>\<close>

definition own_capability :: "Server \<Rightarrow> string \<Rightarrow> json jsobject property" where
  "own_capability s feature = obj_get (Server.capabilities s) feature"

definition assertCapabilityForMethod :: "string \<Rightarrow> Server \<Rightarrow> error + unit" where
  "assertCapabilityForMethod method s =
     (if method = ''sampling/createMessage'' then
        (if \<not> truthy (client_capability s ''sampling'') then
           Inl (Error (''Client does not support sampling (required for '' @ method @ '')''))
         else Inr ())
      else if method = ''roots/list'' then
        (if \<not> truthy (client_capability s ''roots'') then
           Inl (Error (''Client does not support listing roots (required for '' @ method @ '')''))
         else Inr ())
      else Inr ())"

definition assertNotificationCapability :: "string \<Rightarrow> Server \<Rightarrow> error + unit" where
  "assertNotificationCapability method s =
     (if method = ''notifications/message'' then
        (if \<not> truthy (own_capability s ''logging'') then
           Inl (Error (''Server does not support logging (required for '' @ method @ '')''))
         else Inr ())
      else if method = ''notifications/resources/updated'' \<or>
              method = ''notifications/resources/list_changed'' then
        (if \<not> truthy (own_capability s ''resources'') then
           Inl (Error (''Server does not support notifying about resources (required for ''
                  @ method @ '')''))
         else Inr ())
      else if method = ''notifications/tools/list_changed'' then
        (if \<not> truthy (own_capability s ''tools'') then
           Inl (Error (''Server does not support notifying of tool list changes (required for ''
                  @ method @ '')''))
         else Inr ())
      else if method = ''notifications/prompts/list_changed'' then
        (if \<not> truthy (own_capability s ''prompts'') then
           Inl (Error (''Server does not support notifying of prompt list changes (required for ''
                  @ method @ '')''))
         else Inr ())
      else Inr ())"

definition assertRequestHandlerCapability :: "string \<Rightarrow> Server \<Rightarrow> error + unit" where
  "assertRequestHandlerCapability method s =
     (if method = ''sampling/createMessage'' then
        (if \<not> truthy (own_capability s ''sampling'') then
           Inl (Error (''Server does not support sampling (required for '' @ method @ '')''))
         else Inr ())
      else if method = ''logging/setLevel'' then
        (if \<not> truthy (own_capability s ''logging'') then
           Inl (Error (''Server does not support logging (required for '' @ method @ '')''))
         else Inr ())
      else if method = ''prompts/get'' \<or> method = ''prompts/list'' then
        (if \<not> truthy (own_capability s ''prompts'') then
           Inl (Error (''Server does not support prompts (required for '' @ method @ '')''))
         else Inr ())
      else if method = ''resources/list'' \<or> method = ''resources/templates/list'' \<or>
              method = ''resources/read'' then
        (if \<not> truthy (own_capability s ''resources'') then
           Inl (Error (''Server does not support resources (required for '' @ method @ '')''))
         else Inr ())
      else if method = ''tools/call'' \<or> method = ''tools/list'' then
        (if \<not> truthy (own_capability s ''tools'') then
           Inl (Error (''Server does not support tools (required for '' @ method @ '')''))
         else Inr ())
      else Inr ())"

subsection \<open>The base class\<close>

text \<open>
  Modelled from the spec: \<^verbatim>\<open>Protocol.assertCanSetRequestHandler\<close> is not among
  the sources. The spec describes it as the guard against registering a handler for a
  protocol method that already has one, and expects it to reject the second installation
  of a registry; whether it lets the installer of the existing handler through is left
  open there. The source calls it with the method alone, so it is given nothing to tell
  installers apart by: it refuses every method that has a handler.
\<close>

definition assertCanSetRequestHandler :: "string \<Rightarrow> Server \<Rightarrow> unit outcome" where
  "assertCanSetRequestHandler method s =
     (case requestHandlers s method of
        None \<Rightarrow> (s, Inr ())
      | Some h \<Rightarrow>
          (s, Inl (Error (''A request handler for '' @ method @
                          '' already exists, which would be overridden''))))"

text \<open>
  Modelled from the spec: \<^verbatim>\<open>Protocol.setRequestHandler\<close> is not among the
  sources. The spec has the installation of an inbound request handler pass the
  capability guard of its method, and then the handler serves the method.
\<close>

definition setRequestHandler :: "string \<Rightarrow> handler \<Rightarrow> Server \<Rightarrow> unit outcome" where
  "setRequestHandler method h s =
     (case assertRequestHandlerCapability method s of
        Inl e \<Rightarrow> (s, Inl e)
      | Inr u \<Rightarrow> (s\<lparr>requestHandlers := (requestHandlers s)(method \<mapsto> h)\<rparr>, Inr ()))"

text \<open>
  Modelled from the spec: \<^verbatim>\<open>Protocol.request\<close> and
  \<^verbatim>\<open>Protocol.notification\<close> are not among the sources. The spec has each
  outbound helper forward to the underlying primitive with the capability guard of the
  method applied first; the message is then handed to the transport.
\<close>

definition request :: "string \<Rightarrow> Server \<Rightarrow> unit outcome" where
  "request method s =
     (case assertCapabilityForMethod method s of
        Inl e \<Rightarrow> (s, Inl e)
      | Inr u \<Rightarrow> (s\<lparr>sent := sent s @ [OutRequest method]\<rparr>, Inr ()))"

definition notification :: "string \<Rightarrow> Server \<Rightarrow> unit outcome" where
  "notification method s =
     (case assertNotificationCapability method s of
        Inl e \<Rightarrow> (s, Inl e)
      | Inr u \<Rightarrow> (s\<lparr>sent := sent s @ [OutNotification method]\<rparr>, Inr ()))"

text \<open>Modelled from the spec: \<^verbatim>\<open>Protocol.connect\<close> attaches a transport.\<close>

definition connect :: "Server \<Rightarrow> Server" where
  "connect s = s\<lparr>transport := True\<rparr>"

subsection \<open>Construction and outbound helpers\<close>

definition new_Server :: "Implementation \<Rightarrow> Capabilities option \<Rightarrow> Server" where
  "new_Server info options_capabilities =
     fst (setRequestHandler ''initialize'' InitializeHandler
       \<lparr>transport = False, requestHandlers = Map.empty, sent = [],
        clientCapabilities = None, clientVersion = None,
        capabilities = (case options_capabilities of None \<Rightarrow> [] | Some c \<Rightarrow> c),
        serverInfo = info, registeredTools = [], registeredResources = [],
        registeredResourceTemplates = []\<rparr>)"

definition ping :: "Server \<Rightarrow> unit outcome" where
  "ping s = request ''ping'' s"

definition createMessage :: "Server \<Rightarrow> unit outcome" where
  "createMessage s = request ''sampling/createMessage'' s"

definition listRoots :: "Server \<Rightarrow> unit outcome" where
  "listRoots s = request ''roots/list'' s"

definition sendLoggingMessage :: "Server \<Rightarrow> unit outcome" where
  "sendLoggingMessage s = notification ''notifications/message'' s"

definition sendResourceUpdated :: "Server \<Rightarrow> unit outcome" where
  "sendResourceUpdated s = notification ''notifications/resources/updated'' s"

definition sendResourceListChanged :: "Server \<Rightarrow> unit outcome" where
  "sendResourceListChanged s = notification ''notifications/resources/list_changed'' s"

definition sendToolListChanged :: "Server \<Rightarrow> unit outcome" where
  "sendToolListChanged s = notification ''notifications/tools/list_changed'' s"

definition sendPromptListChanged :: "Server \<Rightarrow> unit outcome" where
  "sendPromptListChanged s = notification ''notifications/prompts/list_changed'' s"

subsection \<open>The handshake\<close>

text \<open>
  \<^verbatim>\<open>SUPPORTED_PROTOCOL_VERSIONS\<close> and \<^verbatim>\<open>LATEST_PROTOCOL_VERSION\<close>
  are constants of \<^verbatim>\<open>types\<close>, which is not among the sources: they are
  parameters here.
\<close>

definition oninitialize ::
  "string list \<Rightarrow> string \<Rightarrow> InitializeRequest \<Rightarrow> Server \<Rightarrow> InitializeResult outcome" where
  "oninitialize SUPPORTED_PROTOCOL_VERSIONS LATEST_PROTOCOL_VERSION req s =
     (let requestedVersion = InitializeRequest.protocolVersion req;
          s' = s\<lparr>clientCapabilities := Some (InitializeRequest.capabilities req),
                 clientVersion := Some (clientInfo req)\<rparr>
      in (s', Inr \<lparr>InitializeResult.protocolVersion =
                      (if List.member SUPPORTED_PROTOCOL_VERSIONS requestedVersion
                       then requestedVersion else LATEST_PROTOCOL_VERSION),
                    InitializeResult.capabilities = getCapabilities s',
                    InitializeResult.serverInfo = Server.serverInfo s'\<rparr>))"

definition getClientCapabilities :: "Server \<Rightarrow> Capabilities option" where
  "getClientCapabilities s = clientCapabilities s"

definition getClientVersion :: "Server \<Rightarrow> Implementation option" where
  "getClientVersion s = clientVersion s"

subsection \<open>The tool registry\<close>

definition listToolsHandler :: "Server \<Rightarrow> Tool list" where
  "listToolsHandler s =
     map (\<lambda>(nm, t).
            \<lparr>Tool.name = nm,
             Tool.description = RegisteredTool.description t,
             Tool.inputSchema =
               (case RegisteredTool.inputSchema t of
                  Some schema \<Rightarrow> zodToJsonSchema schema
                | None \<Rightarrow> EMPTY_OBJECT_JSON_SCHEMA)\<rparr>)
       (Object_entries (registeredTools s))"

text \<open>
  The reads \<^verbatim>\<open>tool.inputSchema\<close> and \<^verbatim>\<open>tool.callback\<close> on the
  value found under the requested name. A value inherited from
  \<^verbatim>\<open>Object.prototype\<close> has neither property: both reads give
  \<^verbatim>\<open>undefined\<close>.
\<close>

definition tool_inputSchema :: "RegisteredTool property \<Rightarrow> AnyZodObject option" where
  "tool_inputSchema found =
     (case found of Own t \<Rightarrow> RegisteredTool.inputSchema t | Inherited \<Rightarrow> None | Undefined \<Rightarrow> None)"

definition tool_callback :: "RegisteredTool property \<Rightarrow> ToolCallback option" where
  "tool_callback found =
     (case found of Own t \<Rightarrow> Some (callback t) | Inherited \<Rightarrow> None | Undefined \<Rightarrow> None)"

text \<open>
  The call \<^verbatim>\<open>cb(args, extra)\<close> or \<^verbatim>\<open>cb(extra)\<close>. Calling
  \<^verbatim>\<open>undefined\<close> throws a \<^verbatim>\<open>TypeError\<close>, an \<^verbatim>\<open>Error\<close>
  whose message is the engine's, and no callback runs.
\<close>

definition call_cb ::
  "ToolCallback option \<Rightarrow> json option \<Rightarrow> RequestHandlerExtra \<Rightarrow> CallToolResult completion" where
  "call_cb cb args extra =
     (case cb of
        None \<Rightarrow> Thrown (ErrorInstance ''cb is not a function'')
      | Some f \<Rightarrow> f args extra)"

definition cb_invocations ::
  "ToolCallback option \<Rightarrow> string \<Rightarrow> json option \<Rightarrow> RequestHandlerExtra \<Rightarrow> invocation list" where
  "cb_invocations cb nm args extra =
     (case cb of None \<Rightarrow> [] | Some f \<Rightarrow> [ToolCallbackInvoked nm args extra])"

text \<open>
  The \<^verbatim>\<open>try\<close> around the call: what the callback returns is returned, and a
  fault is caught and turned into a result.
\<close>

definition caught :: "CallToolResult completion \<Rightarrow> CallToolResult" where
  "caught c =
     (case c of
        Returned r \<Rightarrow> r
      | Thrown e \<Rightarrow>
          \<lparr>content = [TextContent (case e of ErrorInstance m \<Rightarrow> m | NonError str \<Rightarrow> str)],
           isError = Some True\<rparr>)"

definition callToolHandler ::
  "Server \<Rightarrow> CallToolRequest \<Rightarrow> RequestHandlerExtra \<Rightarrow> CallToolResult handled" where
  "callToolHandler s req extra =
     (let found = obj_get (registeredTools s) (tool_name req) in
      if \<not> truthy found then
        ([], Inl (McpError InvalidParams (''Tool '' @ tool_name req @ '' not found'')))
      else
        (case tool_inputSchema found of
           Some schema \<Rightarrow>
             (case safeParseAsync schema (arguments req) of
                SafeParseError message \<Rightarrow>
                  ([], Inl (McpError InvalidParams
                     (''Invalid arguments for tool '' @ tool_name req @ '': '' @ message)))
              | SafeParseSuccess args \<Rightarrow>
                  (cb_invocations (tool_callback found) (tool_name req) (Some args) extra,
                   Inr (caught (call_cb (tool_callback found) (Some args) extra))))
         | None \<Rightarrow>
             (cb_invocations (tool_callback found) (tool_name req) None extra,
              Inr (caught (call_cb (tool_callback found) None extra)))))"

definition setToolRequestHandlers :: "Server \<Rightarrow> unit outcome" where
  "setToolRequestHandlers =
     and_then (assertCanSetRequestHandler ''tools/list'')
    (and_then (assertCanSetRequestHandler ''tools/call'')
    (and_then (registerCapabilities [(''tools'', [])])
    (and_then (setRequestHandler ''tools/list'' ListToolsHandler)
              (setRequestHandler ''tools/call'' CallToolHandler))))"

text \<open>
  The four overloads of \<^verbatim>\<open>tool(name, ...rest)\<close>: the implementation takes a
  leading string of \<open>rest\<close> as the description, then, when more than one argument is
  left, the next one as the raw shape, and the last one as the callback.
\<close>

datatype tool_rest =
    Cb ToolCallback
  | DescriptionCb string ToolCallback
  | ShapeCb ZodRawShape ToolCallback
  | DescriptionShapeCb string ZodRawShape ToolCallback

definition rest_description :: "tool_rest \<Rightarrow> string option" where
  "rest_description rest =
     (case rest of
        Cb cb \<Rightarrow> None
      | DescriptionCb d cb \<Rightarrow> Some d
      | ShapeCb sh cb \<Rightarrow> None
      | DescriptionShapeCb d sh cb \<Rightarrow> Some d)"

definition rest_paramsSchema :: "tool_rest \<Rightarrow> ZodRawShape option" where
  "rest_paramsSchema rest =
     (case rest of
        Cb cb \<Rightarrow> None
      | DescriptionCb d cb \<Rightarrow> None
      | ShapeCb sh cb \<Rightarrow> Some sh
      | DescriptionShapeCb d sh cb \<Rightarrow> Some sh)"

definition rest_cb :: "tool_rest \<Rightarrow> ToolCallback" where
  "rest_cb rest =
     (case rest of
        Cb cb \<Rightarrow> cb
      | DescriptionCb d cb \<Rightarrow> cb
      | ShapeCb sh cb \<Rightarrow> cb
      | DescriptionShapeCb d sh cb \<Rightarrow> cb)"

definition tool :: "string \<Rightarrow> tool_rest \<Rightarrow> Server \<Rightarrow> unit outcome" where
  "tool nm rest s =
     (if truthy (obj_get (registeredTools s) nm) then
        (s, Inl (Error (''Tool '' @ nm @ '' is already registered'')))
      else
        setToolRequestHandlers
          (s\<lparr>registeredTools :=
               obj_set (registeredTools s) nm
                 \<lparr>RegisteredTool.description = rest_description rest,
                  RegisteredTool.inputSchema =
                    (case rest_paramsSchema rest of
                       None \<Rightarrow> None
                     | Some paramsSchema \<Rightarrow> Some (z_object paramsSchema)),
                  callback = rest_cb rest\<rparr>\<rparr>))"

subsection \<open>The resource registry\<close>

definition setResourceRequestHandlers :: "Server \<Rightarrow> unit outcome" where
  "setResourceRequestHandlers =
     and_then (assertCanSetRequestHandler ''resources/list'')
    (and_then (assertCanSetRequestHandler ''resources/templates/list'')
    (and_then (assertCanSetRequestHandler ''resources/read'')
    (and_then (registerCapabilities [(''resources'', [])])
    (and_then (setRequestHandler ''resources/list'' ListResourcesHandler)
    (and_then (setRequestHandler ''resources/templates/list'' ListResourceTemplatesHandler)
              (setRequestHandler ''resources/read'' ReadResourceHandler))))))"

definition registerResource ::
  "string \<Rightarrow> string \<Rightarrow> ResourceMetadata option \<Rightarrow> ReadResourceCallback \<Rightarrow> Server \<Rightarrow> unit outcome" where
  "registerResource nm uri md readCb s =
     (if truthy (obj_get (registeredResources s) uri) then
        (s, Inl (Error (''Resource '' @ uri @ '' is already registered'')))
      else
        setResourceRequestHandlers
          (s\<lparr>registeredResources :=
               obj_set (registeredResources s) uri
                 \<lparr>RegisteredResource.name = nm,
                  RegisteredResource.metadata = md,
                  RegisteredResource.readCallback = readCb\<rparr>\<rparr>))"

definition registerResourceTemplate ::
  "string \<Rightarrow> UriTemplate \<Rightarrow> ResourceMetadata option \<Rightarrow> ListResourcesCallback option \<Rightarrow>
   ReadResourceCallback \<Rightarrow> Server \<Rightarrow> unit outcome" where
  "registerResourceTemplate nm tmpl md listCb readCb s =
     (if truthy (obj_get (registeredResourceTemplates s) nm) then
        (s, Inl (Error (''Resource template '' @ nm @ '' is already registered'')))
      else
        setResourceRequestHandlers
          (s\<lparr>registeredResourceTemplates :=
               obj_set (registeredResourceTemplates s) nm
                 \<lparr>RegisteredResourceTemplate.uriTemplate = tmpl,
                  RegisteredResourceTemplate.metadata = md,
                  RegisteredResourceTemplate.listCallback = listCb,
                  RegisteredResourceTemplate.readCallback = readCb\<rparr>\<rparr>))"

text \<open>
  \<^verbatim>\<open>resource(name, uriOrTemplate, ...rest)\<close>: an object leading \<open>rest\<close> is the
  metadata, then, when more than one argument is left, the next one is the list callback,
  and the last one is the read callback. A string address registers a fixed resource
  (which has no list callback), a template registers a template.
\<close>

datatype uriOrTemplate = Uri string | Template UriTemplate

definition resource ::
  "string \<Rightarrow> uriOrTemplate \<Rightarrow> ResourceMetadata option \<Rightarrow> ListResourcesCallback option \<Rightarrow>
   ReadResourceCallback \<Rightarrow> Server \<Rightarrow> unit outcome" where
  "resource nm target md listCb readCb s =
     (case target of
        Uri uri \<Rightarrow> registerResource nm uri md readCb s
      | Template tmpl \<Rightarrow> registerResourceTemplate nm tmpl md listCb readCb s)"

text \<open>The entry of a fixed resource in the listing: \<^verbatim>\<open>{ uri, name: resource.name, ...resource.metadata }\<close>.\<close>

definition fixed_entry :: "string \<times> RegisteredResource \<Rightarrow> Resource" where
  "fixed_entry e =
     (case e of (uri, r) \<Rightarrow>
        spread_opt [(''uri'', JStr uri), (''name'', JStr (RegisteredResource.name r))]
          (RegisteredResource.metadata r))"

text \<open>The inner loop: each enumerated resource is pushed as \<^verbatim>\<open>{ ...resource, ...template.metadata }\<close>.\<close>

fun push_merged :: "Resource list \<Rightarrow> ResourceMetadata option \<Rightarrow> Resource list \<Rightarrow> Resource list" where
  "push_merged templateResources md [] = templateResources"
| "push_merged templateResources md (r # rs) =
     push_merged (templateResources @ [spread_opt r md]) md rs"

text \<open>
  The outer loop over the templates, with the entries pushed so far. The templates are
  taken with their keys, which only label the recorded invocations.
\<close>

fun list_templates ::
  "(string \<times> RegisteredResourceTemplate) list \<Rightarrow> Resource list \<Rightarrow> Resource list handled" where
  "list_templates [] templateResources = ([], Inr templateResources)"
| "list_templates ((n, t) # ts) templateResources =
     (case RegisteredResourceTemplate.listCallback t of
        None \<Rightarrow> list_templates ts templateResources
      | Some cb \<Rightarrow>
          (case cb of
             Thrown e \<Rightarrow> ([TemplateListInvoked n], Inl (Uncaught e))
           | Returned result \<Rightarrow>
               (case list_templates ts
                       (push_merged templateResources
                          (RegisteredResourceTemplate.metadata t) (resources result)) of
                  (invs, r) \<Rightarrow> (TemplateListInvoked n # invs, r))))"

definition listResourcesHandler :: "Server \<Rightarrow> ListResourcesResult handled" where
  "listResourcesHandler s =
     (let fixed = map fixed_entry (Object_entries (registeredResources s)) in
      case list_templates (Object_entries (registeredResourceTemplates s)) [] of
        (invs, Inl e) \<Rightarrow> (invs, Inl e)
      | (invs, Inr templateResources) \<Rightarrow>
          (invs, Inr \<lparr>resources = fixed @ templateResources\<rparr>))"

definition listResourceTemplatesHandler :: "Server \<Rightarrow> json jsobject list" where
  "listResourceTemplatesHandler s =
     map (\<lambda>(nm, t).
            spread_opt
              [(''name'', JStr nm),
               (''uriTemplate'', JStr (toString (RegisteredResourceTemplate.uriTemplate t)))]
              (RegisteredResourceTemplate.metadata t))
       (Object_entries (registeredResourceTemplates s))"

text \<open>What an awaited read callback gives the handler, which has no \<^verbatim>\<open>try\<close>.\<close>

definition awaited :: "'a completion \<Rightarrow> error + 'a" where
  "awaited c = (case c of Returned r \<Rightarrow> Inr r | Thrown e \<Rightarrow> Inl (Uncaught e))"

text \<open>The loop over the templates of \<^verbatim>\<open>resources/read\<close>.\<close>

fun read_templates ::
  "URL \<Rightarrow> (string \<times> RegisteredResourceTemplate) list \<Rightarrow> ReadResourceResult handled" where
  "read_templates uri [] =
     ([], Inl (McpError InvalidParams (''Resource '' @ href uri @ '' not found'')))"
| "read_templates uri ((n, t) # ts) =
     (case match (RegisteredResourceTemplate.uriTemplate t) (href uri) of
        Some variables \<Rightarrow>
          ([TemplateReadInvoked n uri variables],
           awaited (RegisteredResourceTemplate.readCallback t uri (Some variables)))
      | None \<Rightarrow> read_templates uri ts)"

text \<open>
  The URL constructor of the platform is a parameter: \<open>None\<close> when it throws its
  \<^verbatim>\<open>TypeError\<close>, and the parsed address otherwise, whose string form is
  \<open>href\<close>. A value inherited from \<^verbatim>\<open>Object.prototype\<close> has no
  \<^verbatim>\<open>readCallback\<close>, and calling it throws.
\<close>

definition readResourceHandler ::
  "(string \<Rightarrow> URL option) \<Rightarrow> Server \<Rightarrow> string \<Rightarrow> ReadResourceResult handled" where
  "readResourceHandler new_URL s request_uri =
     (case new_URL request_uri of
        None \<Rightarrow> ([], Inl (TypeError ''Invalid URL''))
      | Some uri \<Rightarrow>
          (case obj_get (registeredResources s) (href uri) of
             Own r \<Rightarrow>
               ([ResourceReadInvoked (href uri) uri],
                awaited (RegisteredResource.readCallback r uri None))
           | Inherited \<Rightarrow> ([], Inl (TypeError ''resource.readCallback is not a function''))
           | Undefined \<Rightarrow> read_templates uri (Object_entries (registeredResourceTemplates s))))"

section \<open>What the specification says, in its own terms\<close>

text \<open>A capability set declares a feature when it has the feature as one of its names.\<close>

definition declares :: "Capabilities option \<Rightarrow> string \<Rightarrow> bool" where
  "declares caps feature =
     (case caps of None \<Rightarrow> False | Some c \<Rightarrow> List.member (map fst c) feature)"

text \<open>The fields of an entry of a listing, as a finite map, and those of optional metadata.\<close>

definition fields_of :: "ResourceMetadata option \<Rightarrow> string \<rightharpoonup> json" where
  "fields_of md = (case md of None \<Rightarrow> Map.empty | Some m \<Rightarrow> map_of m)"

text \<open>An object has each of its keys once.\<close>

definition wellformed_metadata :: "ResourceMetadata option \<Rightarrow> bool" where
  "wellformed_metadata md = (case md of None \<Rightarrow> True | Some m \<Rightarrow> distinct (map fst m))"

text \<open>
  The listing of the spec: a fixed resource is listed as
  \<open>{address, name, ...metadata}\<close>; a template with a list callback contributes the
  resources its callback enumerates, each overridden by the metadata of the template; a
  template without one contributes nothing.
\<close>

definition listed_fixed :: "string \<times> RegisteredResource \<Rightarrow> string \<rightharpoonup> json" where
  "listed_fixed e =
     (case e of (uri, r) \<Rightarrow>
        [''uri'' \<mapsto> JStr uri, ''name'' \<mapsto> JStr (RegisteredResource.name r)]
          ++ fields_of (RegisteredResource.metadata r))"

definition listed_enumerated :: "RegisteredResourceTemplate \<Rightarrow> (string \<rightharpoonup> json) list" where
  "listed_enumerated t =
     (case RegisteredResourceTemplate.listCallback t of
        None \<Rightarrow> []
      | Some (Thrown e) \<Rightarrow> []
      | Some (Returned result) \<Rightarrow>
          map (\<lambda>r. map_of r ++ fields_of (RegisteredResourceTemplate.metadata t))
            (resources result))"

definition list_callback_returns :: "RegisteredResourceTemplate \<Rightarrow> bool" where
  "list_callback_returns t =
     (case RegisteredResourceTemplate.listCallback t of
        None \<Rightarrow> True
      | Some (Thrown e) \<Rightarrow> False
      | Some (Returned result) \<Rightarrow> True)"

section \<open>Auxiliary notions for the statements\<close>

text \<open>
  The server once the handlers of a registry are installed, and the condition under which
  the installation goes through: no transport attached, and no method of the registry
  with a handler yet.
\<close>

definition tools_installed :: "Server \<Rightarrow> Server" where
  "tools_installed s =
     s\<lparr>Server.capabilities := mergeCapabilities (Server.capabilities s) [(''tools'', [])],
       requestHandlers := (requestHandlers s)
         (''tools/list'' \<mapsto> ListToolsHandler, ''tools/call'' \<mapsto> CallToolHandler)\<rparr>"

definition tools_installable :: "Server \<Rightarrow> bool" where
  "tools_installable s =
     (\<not> transport s \<and> requestHandlers s ''tools/list'' = None \<and>
      requestHandlers s ''tools/call'' = None)"

definition resources_installed :: "Server \<Rightarrow> Server" where
  "resources_installed s =
     s\<lparr>Server.capabilities := mergeCapabilities (Server.capabilities s) [(''resources'', [])],
       requestHandlers := (requestHandlers s)
         (''resources/list'' \<mapsto> ListResourcesHandler,
          ''resources/templates/list'' \<mapsto> ListResourceTemplatesHandler,
          ''resources/read'' \<mapsto> ReadResourceHandler)\<rparr>"

definition resources_installable :: "Server \<Rightarrow> bool" where
  "resources_installable s =
     (\<not> transport s \<and> requestHandlers s ''resources/list'' = None \<and>
      requestHandlers s ''resources/templates/list'' = None \<and>
      requestHandlers s ''resources/read'' = None)"

text \<open>The entry \<^verbatim>\<open>tool\<close> stores for the arguments of a registration.\<close>

definition new_tool :: "tool_rest \<Rightarrow> RegisteredTool" where
  "new_tool rest =
     \<lparr>RegisteredTool.description = rest_description rest,
      RegisteredTool.inputSchema =
        (case rest_paramsSchema rest of None \<Rightarrow> None | Some paramsSchema \<Rightarrow> Some (z_object paramsSchema)),
      callback = rest_cb rest\<rparr>"

text \<open>What the inner loop of the listing pushes for one template.\<close>

definition enumerated_entries :: "RegisteredResourceTemplate \<Rightarrow> Resource list" where
  "enumerated_entries t =
     (case RegisteredResourceTemplate.listCallback t of
        None \<Rightarrow> []
      | Some (Thrown e) \<Rightarrow> []
      | Some (Returned result) \<Rightarrow>
          map (\<lambda>r. spread_opt r (RegisteredResourceTemplate.metadata t)) (resources result))"

section \<open>Example servers\<close>

definition fresh_server :: Server where
  "fresh_server = new_Server (Implementation ''example'' ''1.0.0'') None"

definition ok_result :: CallToolResult where
  "ok_result = \<lparr>content = [TextContent ''ok''], isError = None\<rparr>"

definition ok_cb :: ToolCallback where
  "ok_cb args extra = Returned ok_result"

definition echo_cb :: ToolCallback where
  "echo_cb args extra =
     (case args of
        Some (JObj [(k, JStr text)]) \<Rightarrow> Returned \<lparr>content = [TextContent text], isError = None\<rparr>
      | _ \<Rightarrow> Thrown (NonError ''no text''))"

definition failing_cb :: ToolCallback where
  "failing_cb args extra = Thrown (ErrorInstance ''boom'')"

text \<open>A shape with one string field \<open>text\<close>.\<close>

definition text_shape :: ZodRawShape where
  "text_shape =
     ZodRawShape (ZodObject
       (\<lambda>input. case input of
                   Some (JObj [(k, JStr text)]) \<Rightarrow>
                     if k = ''text'' then SafeParseSuccess (JObj [(k, JStr text)])
                     else SafeParseError ''Required''
                 | _ \<Rightarrow> SafeParseError ''Required'')
       (JObj [(''type'', JStr ''object'')]))"

text \<open>
  A stand-in for the URL constructor on the addresses of the examples: it refuses the
  empty string and leaves an address of the form \<open>mem://host\<close> as it is.
\<close>

definition example_URL :: "string \<Rightarrow> URL option" where
  "example_URL a = (if a = [] then None else Some (URL a))"

text \<open>A template \<open>mem://{id}\<close>, and a read callback that answers with a fixed text.\<close>

definition mem_template :: UriTemplate where
  "mem_template =
     UriTemplate ''mem://{id}''
       (\<lambda>a. if take 6 a = ''mem://'' then Some [(''id'', drop 6 a)] else None)"

definition answer :: "string \<Rightarrow> ReadResourceCallback" where
  "answer text uri variables = Returned (JStr text)"

definition failing_read :: ReadResourceCallback where
  "failing_read uri variables = Thrown (ErrorInstance ''unreadable'')"

text \<open>
  The server after a list of calls, whatever their outcomes: a registration that throws
  while installing its handlers has inserted its entry already.
\<close>

definition after :: "(Server \<Rightarrow> unit outcome) list \<Rightarrow> Server \<Rightarrow> Server" where
  "after steps s = foldl (\<lambda>acc step. fst (step acc)) s steps"

text \<open>A server with two tools, a fixed resource and a template in its registries.\<close>

definition populated_server :: Server where
  "populated_server =
     after [tool ''echo'' (DescriptionShapeCb ''Echoes its input'' text_shape echo_cb),
            tool ''fail'' (Cb failing_cb),
            registerResource ''greeting'' ''mem://greeting'' None (answer ''hello''),
            registerResourceTemplate ''items'' mem_template None None (answer ''item'')]
       fresh_server"

text \<open>A server with listed resources: metadata, a list callback, failing read callbacks.\<close>

definition catalogue_server :: Server where
  "catalogue_server =
     after [registerResource ''greeting'' ''mem://greeting''
              (Some [(''mimeType'', JStr ''text/plain'')]) (answer ''hello''),
            registerResource ''broken'' ''mem://broken'' None failing_read,
            registerResourceTemplate ''items'' mem_template
              (Some [(''mimeType'', JStr ''application/json'')])
              (Some (Returned \<lparr>resources =
                 [[(''uri'', JStr ''mem://1''), (''name'', JStr ''one''),
                   (''mimeType'', JStr ''text/html'')]]\<rparr>))
              failing_read,
            registerResourceTemplate ''hidden'' mem_template None None (answer ''hidden'')]
       fresh_server"

text \<open>Two templates that match the same addresses; the second has a numeric name.\<close>

definition numbered_server :: Server where
  "numbered_server =
     after [registerResourceTemplate ''items'' mem_template None None (answer ''first''),
            registerResourceTemplate ''2024'' mem_template None None (answer ''second'')]
       fresh_server"

section \<open>Properties of the object model\<close>

lemmas js_defs = obj_get_def truthy_def Object_prototype_keys_def Object_entries_def Object_values_def
  is_array_index_def is_digit_def index_value_def spread_def spread_opt_def

lemma colon_not_inherited: "CHR '':'' \<in> set k \<Longrightarrow> k \<notin> set Object_prototype_keys"
  by (auto simp: Object_prototype_keys_def)

lemma obj_get_Own: "map_of obj k = Some v \<Longrightarrow> obj_get obj k = Own v"
  by (simp add: obj_get_def)

lemma obj_get_address:
  "CHR '':'' \<in> set k \<Longrightarrow> map_of obj k = None \<Longrightarrow> obj_get obj k = Undefined"
  by (simp add: obj_get_def colon_not_inherited)

lemma map_of_obj_set: "map_of (obj_set obj k v) = (map_of obj)(k \<mapsto> v)"
  by (induction obj k v rule: obj_set.induct) auto

lemma map_of_assign_all:
  "map_of (foldl (\<lambda>acc (k, v). obj_set acc k v) a xs) = map_of a ++ map_of (rev xs)"
proof (induction xs arbitrary: a)
  case Nil
  then show ?case by simp
next
  case (Cons x xs)
  obtain k v where x: "x = (k, v)" by (cases x)
  have "map_of (foldl (\<lambda>acc (k, v). obj_set acc k v) (obj_set a k v) xs)
        = map_of (obj_set a k v) ++ map_of (rev xs)"
    by (rule Cons.IH)
  then show ?case
    by (simp add: x map_of_obj_set map_add_def fun_eq_iff split: option.splits)
qed

lemma map_of_filter_keys:
  "map_of (filter (\<lambda>(k, v). P k) xs) k = (if P k then map_of xs k else None)"
  by (induction xs) auto

lemma distinct_filter_keys: "distinct (map fst xs) \<Longrightarrow> distinct (map fst (filter Q xs))"
  by (induction xs) auto

lemma distinct_keys_sort_key:
  assumes "distinct (map fst xs)"
  shows "distinct (map fst (sort_key f xs))"
proof -
  from assms have "distinct xs" and "inj_on fst (set xs)"
    by (simp_all add: distinct_map)
  then have "distinct (sort_key f xs)" and "inj_on fst (set (sort_key f xs))"
    by simp_all
  then show ?thesis by (simp add: distinct_map)
qed

lemma map_of_Object_entries:
  assumes "distinct (map fst obj)"
  shows "map_of (Object_entries obj) = map_of obj"
proof -
  let ?ix = "filter (\<lambda>(k, v). is_array_index k) obj"
  let ?f = "\<lambda>(k, v::'a). index_value k"
  have d: "distinct (map fst ?ix)" using assms by (rule distinct_filter_keys)
  then have d': "distinct (map fst (sort_key ?f ?ix))" by (rule distinct_keys_sort_key)
  have s: "set (sort_key ?f ?ix) = set ?ix" by simp
  have m: "map_of (sort_key ?f ?ix) = map_of ?ix"
    using d d' s by (simp add: map_of_inject_set)
  show ?thesis
    unfolding Object_entries_def
    by (rule ext) (simp add: m map_add_def map_of_filter_keys split: option.splits)
qed

lemma distinct_Object_entries:
  assumes "distinct (map fst obj)"
  shows "distinct (map fst (Object_entries obj))"
proof -
  let ?ix = "filter (\<lambda>(k, v). is_array_index k) obj"
  let ?rest = "filter (\<lambda>(k, v). \<not> is_array_index k) obj"
  let ?f = "\<lambda>(k, v::'a). index_value k"
  have "distinct (map fst (sort_key ?f ?ix))"
    using assms by (intro distinct_keys_sort_key distinct_filter_keys)
  moreover have "distinct (map fst ?rest)" using assms by (rule distinct_filter_keys)
  moreover have "fst ` set (sort_key ?f ?ix) \<inter> fst ` set ?rest = {}" by auto
  ultimately show ?thesis by (simp add: Object_entries_def)
qed

lemma map_of_spread:
  assumes "distinct (map fst b)"
  shows "map_of (spread a b) = map_of a ++ map_of b"
proof -
  have "distinct (map fst (Object_entries b))" using assms by (rule distinct_Object_entries)
  then have "map_of (rev (Object_entries b)) = map_of (Object_entries b)"
    by (simp add: map_of_inject_set rev_map [symmetric])
  then show ?thesis
    by (simp add: spread_def map_of_assign_all map_of_Object_entries assms)
qed

lemma map_of_spread_opt:
  assumes "case md of None \<Rightarrow> True | Some m \<Rightarrow> distinct (map fst m)"
  shows "map_of (spread_opt a md) = map_of a ++ (case md of None \<Rightarrow> Map.empty | Some m \<Rightarrow> map_of m)"
  using assms by (cases md) (simp_all add: spread_opt_def map_of_spread)

section \<open>The example servers, evaluated\<close>

lemmas server_defs = new_Server_def setRequestHandler_def assertRequestHandlerCapability_def
  setToolRequestHandlers_def setResourceRequestHandlers_def and_then_def assertCanSetRequestHandler_def
  registerCapabilities_def mergeCapabilities_def own_capability_def client_capability_def
  rest_cb_def rest_description_def rest_paramsSchema_def tool_def registerResource_def
  registerResourceTemplate_def resource_def connect_def

lemmas handler_defs = callToolHandler_def tool_inputSchema_def tool_callback_def call_cb_def
  cb_invocations_def caught_def readResourceHandler_def awaited_def listResourcesHandler_def
  fixed_entry_def

lemmas example_defs = fresh_server_def ok_result_def ok_cb_def echo_cb_def failing_cb_def
  text_shape_def example_URL_def mem_template_def answer_def failing_read_def after_def

lemma fresh_server_value:
  "fresh_server =
     \<lparr>transport = False, requestHandlers = [''initialize'' \<mapsto> InitializeHandler], sent = [],
      clientCapabilities = None, clientVersion = None, capabilities = [],
      serverInfo = Implementation ''example'' ''1.0.0'', registeredTools = [],
      registeredResources = [], registeredResourceTemplates = []\<rparr>"
  by (simp add: fresh_server_def server_defs)

lemma populated_server_value:
  "populated_server =
     \<lparr>transport = False,
      requestHandlers = [''initialize'' \<mapsto> InitializeHandler,
         ''tools/list'' \<mapsto> ListToolsHandler, ''tools/call'' \<mapsto> CallToolHandler,
         ''resources/list'' \<mapsto> ListResourcesHandler,
         ''resources/templates/list'' \<mapsto> ListResourceTemplatesHandler,
         ''resources/read'' \<mapsto> ReadResourceHandler],
      sent = [], clientCapabilities = None, clientVersion = None,
      capabilities = [(''tools'', []), (''resources'', [])],
      serverInfo = Implementation ''example'' ''1.0.0'',
      registeredTools =
        [(''echo'', \<lparr>RegisteredTool.description = Some ''Echoes its input'',
                     inputSchema = Some (z_object text_shape), callback = echo_cb\<rparr>),
         (''fail'', \<lparr>RegisteredTool.description = None, inputSchema = None,
                     callback = failing_cb\<rparr>)],
      registeredResources =
        [(''mem://greeting'', \<lparr>RegisteredResource.name = ''greeting'', metadata = None,
                                readCallback = answer ''hello''\<rparr>)],
      registeredResourceTemplates =
        [(''items'', \<lparr>uriTemplate = mem_template, metadata = None, listCallback = None,
                      readCallback = answer ''item''\<rparr>)]\<rparr>"
  unfolding populated_server_def after_def fresh_server_value
  by (simp add: server_defs js_defs)

lemma catalogue_server_value:
  "catalogue_server =
     \<lparr>transport = False,
      requestHandlers = [''initialize'' \<mapsto> InitializeHandler,
         ''resources/list'' \<mapsto> ListResourcesHandler,
         ''resources/templates/list'' \<mapsto> ListResourceTemplatesHandler,
         ''resources/read'' \<mapsto> ReadResourceHandler],
      sent = [], clientCapabilities = None, clientVersion = None,
      capabilities = [(''resources'', [])],
      serverInfo = Implementation ''example'' ''1.0.0'',
      registeredTools = [],
      registeredResources =
        [(''mem://greeting'', \<lparr>RegisteredResource.name = ''greeting'',
                                metadata = Some [(''mimeType'', JStr ''text/plain'')],
                                readCallback = answer ''hello''\<rparr>),
         (''mem://broken'', \<lparr>RegisteredResource.name = ''broken'', metadata = None,
                              readCallback = failing_read\<rparr>)],
      registeredResourceTemplates =
        [(''items'', \<lparr>uriTemplate = mem_template,
                      metadata = Some [(''mimeType'', JStr ''application/json'')],
                      listCallback = Some (Returned \<lparr>resources =
                        [[(''uri'', JStr ''mem://1''), (''name'', JStr ''one''),
                          (''mimeType'', JStr ''text/html'')]]\<rparr>),
                      readCallback = failing_read\<rparr>),
         (''hidden'', \<lparr>uriTemplate = mem_template, metadata = None, listCallback = None,
                       readCallback = answer ''hidden''\<rparr>)]\<rparr>"
  unfolding catalogue_server_def after_def fresh_server_value
  by (simp add: server_defs js_defs)

lemma numbered_server_value:
  "numbered_server =
     \<lparr>transport = False,
      requestHandlers = [''initialize'' \<mapsto> InitializeHandler,
         ''resources/list'' \<mapsto> ListResourcesHandler,
         ''resources/templates/list'' \<mapsto> ListResourceTemplatesHandler,
         ''resources/read'' \<mapsto> ReadResourceHandler],
      sent = [], clientCapabilities = None, clientVersion = None,
      capabilities = [(''resources'', [])],
      serverInfo = Implementation ''example'' ''1.0.0'',
      registeredTools = [], registeredResources = [],
      registeredResourceTemplates =
        [(''items'', \<lparr>uriTemplate = mem_template, metadata = None, listCallback = None,
                      readCallback = answer ''first''\<rparr>),
         (''2024'', \<lparr>uriTemplate = mem_template, metadata = None, listCallback = None,
                     readCallback = answer ''second''\<rparr>)]\<rparr>"
  unfolding numbered_server_def after_def fresh_server_value
  by (simp add: server_defs js_defs)

section \<open>The handshake\<close>

text \<open>
  C7. The handshake answers with the requested protocol version when it is one of the
  supported versions and with the latest version otherwise, never with an error; the
  answer carries the server's capabilities and identity; the capabilities and identity
  of the peer are recorded, and a later handshake overwrites them.
\<close>

theorem handshake_negotiates_version:
  "snd (oninitialize supported latest req s) =
     Inr \<lparr>InitializeResult.protocolVersion =
            (if InitializeRequest.protocolVersion req \<in> set supported
             then InitializeRequest.protocolVersion req else latest),
          InitializeResult.capabilities = Server.capabilities s,
          InitializeResult.serverInfo = Server.serverInfo s\<rparr> \<and>
   fst (oninitialize supported latest req s) =
     s\<lparr>clientCapabilities := Some (InitializeRequest.capabilities req),
       clientVersion := Some (clientInfo req)\<rparr> \<and>
   clientCapabilities (fst (oninitialize supported latest req'
       (fst (oninitialize supported latest req s)))) =
     Some (InitializeRequest.capabilities req') \<and>
   clientVersion (fst (oninitialize supported latest req'
       (fst (oninitialize supported latest req s)))) = Some (clientInfo req')"
  by (simp add: oninitialize_def Let_def getCapabilities_def)

theorem handshake_negotiates_version_witness:
  "InitializeResult.protocolVersion
     (projr (snd (oninitialize [''2024-11-05'', ''2024-10-07''] ''2024-11-05''
        \<lparr>InitializeRequest.protocolVersion = ''2024-10-07'',
         capabilities = [(''sampling'', [])], clientInfo = Implementation ''peer'' ''2''\<rparr>
        fresh_server))) = ''2024-10-07'' \<and>
   InitializeResult.protocolVersion
     (projr (snd (oninitialize [''2024-11-05'', ''2024-10-07''] ''2024-11-05''
        \<lparr>InitializeRequest.protocolVersion = ''1999-01-01'',
         capabilities = [(''sampling'', [])], clientInfo = Implementation ''peer'' ''2''\<rparr>
        fresh_server))) = ''2024-11-05''"
  using handshake_negotiates_version [of "[''2024-11-05'', ''2024-10-07'']" "''2024-11-05''"
      "\<lparr>InitializeRequest.protocolVersion = ''2024-10-07'',
         capabilities = [(''sampling'', [])], clientInfo = Implementation ''peer'' ''2''\<rparr>"
      fresh_server]
    handshake_negotiates_version [of "[''2024-11-05'', ''2024-10-07'']" "''2024-11-05''"
      "\<lparr>InitializeRequest.protocolVersion = ''1999-01-01'',
         capabilities = [(''sampling'', [])], clientInfo = Implementation ''peer'' ''2''\<rparr>"
      fresh_server]
  by simp

section \<open>Duplicate registrations\<close>

text \<open>
  C8. Registering a tool under a name that is in the tool registry, a fixed resource at
  an address that is in the resource registry, or a template under a name that is in the
  template registry throws a plain error and leaves the server, and so the entry of the
  first registration, as it was.
\<close>

theorem duplicate_registration_rejected:
  "(map_of (registeredTools s) n = Some t \<longrightarrow>
      tool n rest s = (s, Inl (Error (''Tool '' @ n @ '' is already registered'')))) \<and>
   (map_of (registeredResources s) uri = Some r \<longrightarrow>
      registerResource nm uri md readCb s =
        (s, Inl (Error (''Resource '' @ uri @ '' is already registered'')))) \<and>
   (map_of (registeredResourceTemplates s) n' = Some rt \<longrightarrow>
      registerResourceTemplate n' tmpl md' listCb readCb' s =
        (s, Inl (Error (''Resource template '' @ n' @ '' is already registered''))))"
  by (simp add: tool_def registerResource_def registerResourceTemplate_def obj_get_def truthy_def)

theorem duplicate_registration_rejected_witness:
  "tool ''echo'' (Cb ok_cb) populated_server =
     (populated_server, Inl (Error ''Tool echo is already registered'')) \<and>
   registerResource ''other'' ''mem://greeting'' None (answer ''bye'') populated_server =
     (populated_server, Inl (Error ''Resource mem://greeting is already registered'')) \<and>
   registerResourceTemplate ''items'' mem_template None None (answer ''x'') populated_server =
     (populated_server, Inl (Error ''Resource template items is already registered''))"
  using duplicate_registration_rejected [of populated_server "''echo''" _ "Cb ok_cb"
      "''mem://greeting''" _ "''other''" None "answer ''bye''" "''items''" _ mem_template None None "answer ''x''"]
  by (simp add: populated_server_value)

section \<open>Outbound capability guards\<close>

lemma feature_not_inherited:
  "f \<notin> set Object_prototype_keys \<Longrightarrow>
   truthy (obj_get c f) = List.member (map fst c) f"
  by (auto simp: obj_get_def truthy_def map_of_eq_None_iff dest: map_of_SomeD
      intro: rev_image_eqI split: option.splits)

lemma truthy_client_capability:
  "f \<notin> set Object_prototype_keys \<Longrightarrow>
   truthy (client_capability s f) = declares (clientCapabilities s) f"
proof (cases "clientCapabilities s")
  case None
  then show ?thesis by (simp add: client_capability_def declares_def truthy_def)
next
  case (Some c)
  assume "f \<notin> set Object_prototype_keys"
  then show ?thesis
    using feature_not_inherited [of f c] by (simp add: client_capability_def declares_def Some)
qed

lemma truthy_own_capability:
  "f \<notin> set Object_prototype_keys \<Longrightarrow>
   truthy (own_capability s f) = declares (Some (Server.capabilities s)) f"
  by (simp add: own_capability_def declares_def feature_not_inherited)

lemma feature_names:
  "''sampling'' \<notin> set Object_prototype_keys" "''roots'' \<notin> set Object_prototype_keys"
  "''logging'' \<notin> set Object_prototype_keys" "''resources'' \<notin> set Object_prototype_keys"
  "''tools'' \<notin> set Object_prototype_keys" "''prompts'' \<notin> set Object_prototype_keys"
  by (simp_all add: Object_prototype_keys_def)

text \<open>
  C9. Sending \<open>sampling/createMessage\<close> when the recorded capabilities of the peer do
  not declare \<open>sampling\<close>, or \<open>roots/list\<close> when they do not declare \<open>roots\<close>,
  throws and hands no message to the transport; so does sending \<open>notifications/message\<close>
  without the server's own \<open>logging\<close>, \<open>notifications/resources/updated\<close> or
  \<open>notifications/resources/list_changed\<close> without \<open>resources\<close>,
  \<open>notifications/tools/list_changed\<close> without \<open>tools\<close> and
  \<open>notifications/prompts/list_changed\<close> without \<open>prompts\<close>; \<open>ping\<close>,
  \<open>notifications/cancelled\<close> and \<open>notifications/progress\<close> are sent whatever the
  capabilities are.
\<close>

theorem outbound_capability_guards:
  "(\<not> declares (clientCapabilities s) ''sampling'' \<longrightarrow>
      createMessage s =
        (s, Inl (Error ''Client does not support sampling (required for sampling/createMessage)''))) \<and>
   (\<not> declares (clientCapabilities s) ''roots'' \<longrightarrow>
      listRoots s =
        (s, Inl (Error ''Client does not support listing roots (required for roots/list)''))) \<and>
   (\<not> declares (Some (Server.capabilities s)) ''logging'' \<longrightarrow>
      sendLoggingMessage s =
        (s, Inl (Error ''Server does not support logging (required for notifications/message)''))) \<and>
   (\<not> declares (Some (Server.capabilities s)) ''resources'' \<longrightarrow>
      sendResourceUpdated s =
        (s, Inl (Error ''Server does not support notifying about resources (required for notifications/resources/updated)'')) \<and>
      sendResourceListChanged s =
        (s, Inl (Error ''Server does not support notifying about resources (required for notifications/resources/list_changed)''))) \<and>
   (\<not> declares (Some (Server.capabilities s)) ''tools'' \<longrightarrow>
      sendToolListChanged s =
        (s, Inl (Error ''Server does not support notifying of tool list changes (required for notifications/tools/list_changed)''))) \<and>
   (\<not> declares (Some (Server.capabilities s)) ''prompts'' \<longrightarrow>
      sendPromptListChanged s =
        (s, Inl (Error ''Server does not support notifying of prompt list changes (required for notifications/prompts/list_changed)''))) \<and>
   ping s = (s\<lparr>sent := sent s @ [OutRequest ''ping'']\<rparr>, Inr ()) \<and>
   notification ''notifications/cancelled'' s =
     (s\<lparr>sent := sent s @ [OutNotification ''notifications/cancelled'']\<rparr>, Inr ()) \<and>
   notification ''notifications/progress'' s =
     (s\<lparr>sent := sent s @ [OutNotification ''notifications/progress'']\<rparr>, Inr ())"
  by (simp add: createMessage_def listRoots_def sendLoggingMessage_def sendResourceUpdated_def
      sendResourceListChanged_def sendToolListChanged_def sendPromptListChanged_def ping_def
      request_def notification_def assertCapabilityForMethod_def assertNotificationCapability_def
      truthy_client_capability truthy_own_capability feature_names)

theorem outbound_capability_guards_witness:
  "createMessage fresh_server =
     (fresh_server, Inl (Error ''Client does not support sampling (required for sampling/createMessage)'')) \<and>
   listRoots fresh_server =
     (fresh_server, Inl (Error ''Client does not support listing roots (required for roots/list)'')) \<and>
   sendLoggingMessage fresh_server =
     (fresh_server, Inl (Error ''Server does not support logging (required for notifications/message)'')) \<and>
   sendToolListChanged fresh_server =
     (fresh_server, Inl (Error ''Server does not support notifying of tool list changes (required for notifications/tools/list_changed)'')) \<and>
   sendPromptListChanged fresh_server =
     (fresh_server, Inl (Error ''Server does not support notifying of prompt list changes (required for notifications/prompts/list_changed)'')) \<and>
   sent (fst (ping fresh_server)) = [OutRequest ''ping'']"
  using outbound_capability_guards [of fresh_server]
  by (simp add: fresh_server_value declares_def)

section \<open>Tool calls\<close>

text \<open>
  C2. When the callback of a registered tool throws or rejects (after the arguments
  passed the declared input schema, if there is one), \<open>tools/call\<close> answers with a
  result, not an error: its content is one text item holding the message of the fault (or
  its string form), and \<open>isError\<close> is true.
\<close>

theorem tool_fault_becomes_result:
  assumes "map_of (registeredTools s) (tool_name req) = Some t"
    and "case RegisteredTool.inputSchema t of
           None \<Rightarrow> callback t None extra = Thrown e
         | Some schema \<Rightarrow>
             (case safeParseAsync schema (arguments req) of
                SafeParseError message \<Rightarrow> False
              | SafeParseSuccess args \<Rightarrow> callback t (Some args) extra = Thrown e)"
  shows "snd (callToolHandler s req extra) =
           Inr \<lparr>content = [TextContent (case e of ErrorInstance m \<Rightarrow> m | NonError str \<Rightarrow> str)],
                isError = Some True\<rparr>"
  using assms
  by (auto simp add: callToolHandler_def obj_get_def truthy_def tool_inputSchema_def
      tool_callback_def call_cb_def caught_def Let_def
      split: option.splits SafeParseReturnType.splits)

theorem tool_fault_becomes_result_witness:
  "snd (callToolHandler populated_server \<lparr>tool_name = ''fail'', arguments = None\<rparr> JNull) =
     Inr \<lparr>content = [TextContent ''boom''], isError = Some True\<rparr> \<and>
   snd (callToolHandler populated_server
          \<lparr>tool_name = ''echo'', arguments = Some (JObj [(''text'', JNum 1)])\<rparr> JNull) =
     Inl (McpError InvalidParams ''Invalid arguments for tool echo: Required'')"
  using tool_fault_becomes_result [of populated_server "\<lparr>tool_name = ''fail'', arguments = None\<rparr>"
      "\<lparr>RegisteredTool.description = None, inputSchema = None, callback = failing_cb\<rparr>"
      JNull "ErrorInstance ''boom''"]
  by (simp add: populated_server_value failing_cb_def handler_defs js_defs text_shape_def)

lemma call_unknown_tool:
  assumes "map_of (registeredTools s) (tool_name req) = None"
    and "tool_name req \<notin> set Object_prototype_keys"
  shows "callToolHandler s req extra =
           ([], Inl (McpError InvalidParams (''Tool '' @ tool_name req @ '' not found'')))"
  using assms by (simp add: callToolHandler_def obj_get_def truthy_def)

lemma call_validated_tool:
  assumes "map_of (registeredTools s) (tool_name req) = Some t"
    and "RegisteredTool.inputSchema t = Some schema"
  shows "callToolHandler s req extra =
           (case safeParseAsync schema (arguments req) of
              SafeParseError message \<Rightarrow>
                ([], Inl (McpError InvalidParams
                   (''Invalid arguments for tool '' @ tool_name req @ '': '' @ message)))
            | SafeParseSuccess args \<Rightarrow>
                ([ToolCallbackInvoked (tool_name req) (Some args) extra],
                 Inr (caught (callback t (Some args) extra))))"
  using assms
  by (simp add: callToolHandler_def obj_get_def truthy_def tool_inputSchema_def tool_callback_def
      call_cb_def cb_invocations_def split: SafeParseReturnType.splits)

text \<open>
  C5. A \<open>tools/call\<close> for a name that is not registered is claimed to fail with an
  invalid-params error. The tool \<open>toString\<close> is not registered on the example server,
  but the read of the registry finds the function of that name inherited from
  \<^verbatim>\<open>Object.prototype\<close>, so the not-found check passes; calling its missing
  callback throws inside the \<^verbatim>\<open>try\<close>, and the handler answers with a result
  marked as an error instead of failing. For every other unregistered name, and for
  registered tools with an input schema, the handler does what the claim says
  (\<open>call_unknown_tool\<close>, \<open>call_validated_tool\<close>).
\<close>

theorem inherited_name_reaches_catch:
  "map_of (registeredTools populated_server) ''toString'' = None \<and>
   callToolHandler populated_server \<lparr>tool_name = ''toString'', arguments = None\<rparr> JNull =
     ([], Inr \<lparr>content = [TextContent ''cb is not a function''], isError = Some True\<rparr>)"
  by (simp add: populated_server_value handler_defs js_defs)

section \<open>Reading resources\<close>

lemma read_templates_first_match:
  assumes "list_all (\<lambda>(n', t'). match (RegisteredResourceTemplate.uriTemplate t') (href uri) = None) pre"
    and "match (RegisteredResourceTemplate.uriTemplate t) (href uri) = Some vars"
  shows "read_templates uri (pre @ (n, t) # post) =
           ([TemplateReadInvoked n uri vars],
            awaited (RegisteredResourceTemplate.readCallback t uri (Some vars)))"
  using assms by (induction pre) auto

lemma read_templates_no_match:
  assumes "list_all (\<lambda>(n', t'). match (RegisteredResourceTemplate.uriTemplate t') (href uri) = None) ts"
  shows "read_templates uri ts =
           ([], Inl (McpError InvalidParams (''Resource '' @ href uri @ '' not found'')))"
  using assms by (induction ts) auto

lemma read_resolution:
  assumes "new_URL a = Some uri" and "CHR '':'' \<in> set (href uri)"
  shows "(map_of (registeredResources s) (href uri) = Some r \<longrightarrow>
            readResourceHandler new_URL s a =
              ([ResourceReadInvoked (href uri) uri],
               awaited (RegisteredResource.readCallback r uri None))) \<and>
         (map_of (registeredResources s) (href uri) = None \<and>
          Object_entries (registeredResourceTemplates s) = pre @ (n, t) # post \<and>
          list_all (\<lambda>(n', t'). match (RegisteredResourceTemplate.uriTemplate t') (href uri) = None) pre \<and>
          match (RegisteredResourceTemplate.uriTemplate t) (href uri) = Some vars \<longrightarrow>
            readResourceHandler new_URL s a =
              ([TemplateReadInvoked n uri vars],
               awaited (RegisteredResourceTemplate.readCallback t uri (Some vars)))) \<and>
         (map_of (registeredResources s) (href uri) = None \<and>
          list_all (\<lambda>(n', t'). match (RegisteredResourceTemplate.uriTemplate t') (href uri) = None)
            (Object_entries (registeredResourceTemplates s)) \<longrightarrow>
            readResourceHandler new_URL s a =
              ([], Inl (McpError InvalidParams (''Resource '' @ href uri @ '' not found''))))"
  using assms
  by (simp add: readResourceHandler_def obj_get_Own obj_get_address
      read_templates_first_match read_templates_no_match)

text \<open>
  C4. When \<open>resources/read\<close> resolves to a fixed resource or to a matching template
  and the read callback throws or rejects, the handler fails with that fault: it is not
  caught and not turned into a result. The string form of a parsed address begins with
  its scheme and a colon.
\<close>

theorem read_fault_propagates:
  assumes "new_URL a = Some uri" and "CHR '':'' \<in> set (href uri)"
  shows "(map_of (registeredResources s) (href uri) = Some r \<and>
          RegisteredResource.readCallback r uri None = Thrown e \<longrightarrow>
            snd (readResourceHandler new_URL s a) = Inl (Uncaught e)) \<and>
         (map_of (registeredResources s) (href uri) = None \<and>
          Object_entries (registeredResourceTemplates s) = pre @ (n, t) # post \<and>
          list_all (\<lambda>(n', t'). match (RegisteredResourceTemplate.uriTemplate t') (href uri) = None) pre \<and>
          match (RegisteredResourceTemplate.uriTemplate t) (href uri) = Some vars \<and>
          RegisteredResourceTemplate.readCallback t uri (Some vars) = Thrown e \<longrightarrow>
            snd (readResourceHandler new_URL s a) = Inl (Uncaught e))"
  using assms
  by (simp add: readResourceHandler_def obj_get_Own obj_get_address
      read_templates_first_match awaited_def)

theorem read_fault_propagates_witness:
  "snd (readResourceHandler example_URL catalogue_server ''mem://7'') =
     Inl (Uncaught (ErrorInstance ''unreadable'')) \<and>
   snd (readResourceHandler example_URL catalogue_server ''mem://broken'') =
     Inl (Uncaught (ErrorInstance ''unreadable''))"
  using read_fault_propagates [of example_URL "''mem://broken''" "URL ''mem://broken''"
      catalogue_server
      "\<lparr>RegisteredResource.name = ''broken'', metadata = None, readCallback = failing_read\<rparr>"
      "ErrorInstance ''unreadable''"]
    read_fault_propagates [of example_URL "''mem://7''" "URL ''mem://7''" catalogue_server
      _ "ErrorInstance ''unreadable''" "[]" "''items''"
      "\<lparr>uriTemplate = mem_template,
        metadata = Some [(''mimeType'', JStr ''application/json'')],
        listCallback = Some (Returned \<lparr>resources =
          [[(''uri'', JStr ''mem://1''), (''name'', JStr ''one''),
            (''mimeType'', JStr ''text/html'')]]\<rparr>),
        readCallback = failing_read\<rparr>" _ "[(''id'', ''7'')]"]
  by (simp add: catalogue_server_value example_URL_def js_defs mem_template_def failing_read_def)

text \<open>
  C3. The templates are claimed to be tried in registration order. The loop of
  \<open>resources/read\<close> runs over \<^verbatim>\<open>Object.values\<close> of the template registry,
  which lists a key that is a canonical array index before every other key: the template
  \<open>2024\<close>, registered second, answers an address that the template \<open>items\<close>,
  registered first, matches as well. In the order of \<^verbatim>\<open>Object.values\<close> the
  resolution is as claimed (\<open>read_resolution\<close>).
\<close>

theorem later_template_answers_first:
  "map fst (registeredResourceTemplates numbered_server) = [''items'', ''2024''] \<and>
   readResourceHandler example_URL numbered_server ''mem://x'' =
     ([TemplateReadInvoked ''2024'' (URL ''mem://x'') [(''id'', ''x'')]], Inr (JStr ''second''))"
  by (simp add: numbered_server_value readResourceHandler_def example_URL_def js_defs
      mem_template_def answer_def awaited_def)

section \<open>Listing resources\<close>

lemma push_merged_eq: "push_merged acc md rs = acc @ map (\<lambda>r. spread_opt r md) rs"
  by (induction rs arbitrary: acc) auto

lemma list_templates_returns:
  assumes "list_all list_callback_returns (map snd ts)"
  shows "\<exists>invs. list_templates ts acc =
           (invs, Inr (acc @ concat (map enumerated_entries (map snd ts))))"
  using assms
proof (induction ts arbitrary: acc)
  case Nil
  then show ?case by simp
next
  case (Cons x ts)
  obtain n t where x: "x = (n, t)" by (cases x)
  from Cons.prems have rest: "list_all list_callback_returns (map snd ts)"
    and here: "list_callback_returns t"
    by (simp_all add: x)
  show ?case
  proof (cases "RegisteredResourceTemplate.listCallback t")
    case None
    then show ?thesis
      using Cons.IH [OF rest, of acc] by (simp add: x enumerated_entries_def)
  next
    case (Some cb)
    with here obtain result where cb: "cb = Returned result"
      by (cases cb) (simp_all add: list_callback_returns_def)
    show ?thesis
      using Cons.IH [OF rest, of "push_merged acc (RegisteredResourceTemplate.metadata t) (resources result)"]
      by (auto simp add: x Some cb enumerated_entries_def push_merged_eq)
  qed
qed

lemma map_of_fixed_entry:
  assumes "wellformed_metadata (RegisteredResource.metadata (snd e))"
  shows "map_of (fixed_entry e) = listed_fixed e"
proof -
  obtain uri r where e: "e = (uri, r)" by (cases e)
  have "case RegisteredResource.metadata r of None \<Rightarrow> True | Some m \<Rightarrow> distinct (map fst m)"
    using assms by (simp add: e wellformed_metadata_def)
  then show ?thesis
    by (simp add: e fixed_entry_def listed_fixed_def fields_of_def map_of_spread_opt fun_upd_twist)
qed

lemma map_of_enumerated_entries:
  assumes "wellformed_metadata (RegisteredResourceTemplate.metadata t)"
  shows "map map_of (enumerated_entries t) = listed_enumerated t"
proof -
  have "case RegisteredResourceTemplate.metadata t of None \<Rightarrow> True | Some m \<Rightarrow> distinct (map fst m)"
    using assms by (simp add: wellformed_metadata_def)
  then show ?thesis
    by (simp add: enumerated_entries_def listed_enumerated_def fields_of_def map_of_spread_opt
        split: option.splits completion.splits)
qed

text \<open>
  C6. When every list callback returns, the result of \<open>resources/list\<close> is the list
  of the fixed resources, each as \<open>{address, name, ...metadata}\<close>, followed, for each
  template with a list callback, by the resources the callback enumerates, each
  overridden by the fields of the template's metadata; a template without a list callback
  contributes nothing. Entries are compared field by field; an object has each key once.
\<close>

theorem resources_list_contents:
  assumes "list_all list_callback_returns (Object_values (registeredResourceTemplates s))"
    and "list_all (\<lambda>r. wellformed_metadata (RegisteredResource.metadata r))
           (Object_values (registeredResources s))"
    and "list_all (\<lambda>t. wellformed_metadata (RegisteredResourceTemplate.metadata t))
           (Object_values (registeredResourceTemplates s))"
  shows "\<exists>result. snd (listResourcesHandler s) = Inr result \<and>
           map map_of (resources result) =
             map listed_fixed (Object_entries (registeredResources s)) @
             concat (map listed_enumerated (Object_values (registeredResourceTemplates s)))"
proof -
  let ?ts = "Object_entries (registeredResourceTemplates s)"
  let ?rs = "Object_entries (registeredResources s)"
  obtain invs where l:
    "list_templates ?ts [] = (invs, Inr (concat (map enumerated_entries (map snd ?ts))))"
    using list_templates_returns [of ?ts "[]"] assms(1) by (auto simp add: Object_values_def)
  have f: "map (\<lambda>x. map_of (fixed_entry x)) ?rs = map listed_fixed ?rs"
    using assms(2) by (auto simp add: Object_values_def list_all_iff map_of_fixed_entry)
  have e: "map (\<lambda>x. map map_of (enumerated_entries (snd x))) ?ts =
           map (\<lambda>x. listed_enumerated (snd x)) ?ts"
    using assms(3) by (auto simp add: Object_values_def list_all_iff map_of_enumerated_entries)
  have "snd (listResourcesHandler s) =
          Inr \<lparr>resources = map fixed_entry ?rs @ concat (map enumerated_entries (map snd ?ts))\<rparr>"
    using l by (simp add: listResourcesHandler_def)
  moreover have "map map_of (map fixed_entry ?rs @ concat (map enumerated_entries (map snd ?ts))) =
      map listed_fixed ?rs @ concat (map listed_enumerated (map snd ?ts))"
    by (simp add: map_concat comp_def f arg_cong [OF e])
  ultimately show ?thesis by (simp add: Object_values_def)
qed

theorem resources_list_contents_witness:
  "map (\<lambda>entry. (entry ''uri'', entry ''name'', entry ''mimeType''))
     (map map_of (resources (projr (snd (listResourcesHandler catalogue_server))))) =
     [(Some (JStr ''mem://greeting''), Some (JStr ''greeting''), Some (JStr ''text/plain'')),
      (Some (JStr ''mem://broken''), Some (JStr ''broken''), None),
      (Some (JStr ''mem://1''), Some (JStr ''one''), Some (JStr ''application/json''))]"
  using resources_list_contents [of catalogue_server]
  by (simp add: catalogue_server_value js_defs list_callback_returns_def wellformed_metadata_def
      listResourcesHandler_def fixed_entry_def listed_fixed_def listed_enumerated_def fields_of_def)

section \<open>Installing the handlers of a registry\<close>

lemma obj_get_obj_set: "obj_get (obj_set obj k v) k = Own v"
  by (simp add: obj_get_def map_of_obj_set)

lemma declare_feature:
  "\<not> is_array_index f \<Longrightarrow>
   mergeCapabilities c [(f, [])] =
     obj_set c f (case obj_get c f of Own old \<Rightarrow> old | Inherited \<Rightarrow> [] | Undefined \<Rightarrow> [])"
  by (simp add: mergeCapabilities_def Object_entries_def spread_def split: property.splits)

lemma declared_feature_truthy:
  "\<not> is_array_index f \<Longrightarrow> truthy (obj_get (mergeCapabilities c [(f, [])]) f)"
  by (simp add: declare_feature obj_get_obj_set truthy_def)

lemma tools_not_index: "\<not> is_array_index ''tools''"
  by (simp add: is_array_index_def is_digit_def)

lemma resources_not_index: "\<not> is_array_index ''resources''"
  by (simp add: is_array_index_def is_digit_def)

lemma setToolRequestHandlers_ok:
  "tools_installable s \<Longrightarrow> setToolRequestHandlers s = (tools_installed s, Inr ())"
  using declared_feature_truthy [OF tools_not_index, of "Server.capabilities s"]
  by (auto simp add: setToolRequestHandlers_def and_then_def assertCanSetRequestHandler_def
      registerCapabilities_def setRequestHandler_def assertRequestHandlerCapability_def
      own_capability_def tools_installable_def tools_installed_def)

lemma setToolRequestHandlers_fails:
  "\<not> tools_installable s \<Longrightarrow> \<exists>e. setToolRequestHandlers s = (s, Inl e)"
  by (auto simp add: setToolRequestHandlers_def and_then_def assertCanSetRequestHandler_def
      registerCapabilities_def tools_installable_def
      split: option.splits)

lemma setToolRequestHandlers_refused:
  "requestHandlers s ''tools/list'' = Some h \<Longrightarrow>
   setToolRequestHandlers s =
     (s, Inl (Error ''A request handler for tools/list already exists, which would be overridden''))"
  by (simp add: setToolRequestHandlers_def and_then_def assertCanSetRequestHandler_def)

lemma setToolRequestHandlers_keeps_registry:
  "registeredTools (fst (setToolRequestHandlers s)) = registeredTools s"
  by (cases "tools_installable s")
     (auto simp add: setToolRequestHandlers_ok tools_installed_def dest: setToolRequestHandlers_fails)

lemma fresh_name:
  "n \<notin> set Object_prototype_keys \<Longrightarrow> map_of obj n = None \<Longrightarrow> \<not> truthy (obj_get obj n)"
  by (simp add: obj_get_def truthy_def)

lemma tool_unfold:
  "tool n rest s =
     (if truthy (obj_get (registeredTools s) n) then
        (s, Inl (Error (''Tool '' @ n @ '' is already registered'')))
      else setToolRequestHandlers
             (s\<lparr>registeredTools := obj_set (registeredTools s) n (new_tool rest)\<rparr>))"
  by (simp add: tool_def new_tool_def)

lemma installed_from_success:
  assumes "setToolRequestHandlers s = (s1, Inr ())"
  shows "tools_installable s \<and> s1 = tools_installed s"
proof (cases "tools_installable s")
  case True
  then show ?thesis using assms by (simp add: setToolRequestHandlers_ok)
next
  case False
  then obtain e where "setToolRequestHandlers s = (s, Inl e)"
    using setToolRequestHandlers_fails by blast
  with assms show ?thesis by simp
qed

lemma failed_tool_registration_keeps_entry:
  assumes "n \<notin> set Object_prototype_keys" "map_of (registeredTools s) n = None"
    and "tool n rest s = (s', Inl e)"
  shows "map_of (registeredTools s') n = Some (new_tool rest)"
proof -
  let ?s1 = "s\<lparr>registeredTools := obj_set (registeredTools s) n (new_tool rest)\<rparr>"
  have "s' = fst (setToolRequestHandlers ?s1)"
    using assms by (simp add: tool_unfold fresh_name)
  then have "registeredTools s' = obj_set (registeredTools s) n (new_tool rest)"
    by (simp add: setToolRequestHandlers_keeps_registry)
  then show ?thesis by (simp add: map_of_obj_set)
qed

lemma attached_tool_registration:
  assumes "n \<notin> set Object_prototype_keys" "map_of (registeredTools s) n = None"
    and "transport s" and "requestHandlers s ''tools/list'' = None"
    and "requestHandlers s ''tools/call'' = None"
  shows "tool n rest s =
           (s\<lparr>registeredTools := obj_set (registeredTools s) n (new_tool rest)\<rparr>,
            Inl (Error ''Cannot register capabilities after connecting to transport''))"
  using assms
  by (simp add: tool_unfold fresh_name setToolRequestHandlers_def and_then_def
      assertCanSetRequestHandler_def registerCapabilities_def)

lemma setResourceRequestHandlers_ok:
  "resources_installable s \<Longrightarrow> setResourceRequestHandlers s = (resources_installed s, Inr ())"
  using declared_feature_truthy [OF resources_not_index, of "Server.capabilities s"]
  by (auto simp add: setResourceRequestHandlers_def and_then_def assertCanSetRequestHandler_def
      registerCapabilities_def setRequestHandler_def assertRequestHandlerCapability_def
      own_capability_def resources_installable_def resources_installed_def)

lemma setResourceRequestHandlers_fails:
  "\<not> resources_installable s \<Longrightarrow> \<exists>e. setResourceRequestHandlers s = (s, Inl e)"
  by (auto simp add: setResourceRequestHandlers_def and_then_def assertCanSetRequestHandler_def
      registerCapabilities_def resources_installable_def
      split: option.splits)

lemma setResourceRequestHandlers_refused:
  "requestHandlers s ''resources/list'' = Some h \<Longrightarrow>
   setResourceRequestHandlers s =
     (s, Inl (Error ''A request handler for resources/list already exists, which would be overridden''))"
  by (simp add: setResourceRequestHandlers_def and_then_def assertCanSetRequestHandler_def)

lemma resources_installed_from_success:
  assumes "setResourceRequestHandlers s = (s1, Inr ())"
  shows "resources_installable s \<and> s1 = resources_installed s"
proof (cases "resources_installable s")
  case True
  then show ?thesis using assms by (simp add: setResourceRequestHandlers_ok)
next
  case False
  then obtain e where "setResourceRequestHandlers s = (s, Inl e)"
    using setResourceRequestHandlers_fails by blast
  with assms show ?thesis by simp
qed

lemma attached_resource_registration:
  assumes "transport s" and "requestHandlers s ''resources/list'' = None"
    and "requestHandlers s ''resources/templates/list'' = None"
    and "requestHandlers s ''resources/read'' = None"
  shows "(uri \<notin> set Object_prototype_keys \<and> map_of (registeredResources s) uri = None \<longrightarrow>
            registerResource nm uri md readCb s =
              (s\<lparr>registeredResources := obj_set (registeredResources s) uri
                   \<lparr>RegisteredResource.name = nm, RegisteredResource.metadata = md,
                    RegisteredResource.readCallback = readCb\<rparr>\<rparr>,
               Inl (Error ''Cannot register capabilities after connecting to transport''))) \<and>
         (n \<notin> set Object_prototype_keys \<and> map_of (registeredResourceTemplates s) n = None \<longrightarrow>
            registerResourceTemplate n tmpl md' listCb readCb' s =
              (s\<lparr>registeredResourceTemplates := obj_set (registeredResourceTemplates s) n
                   \<lparr>RegisteredResourceTemplate.uriTemplate = tmpl,
                    RegisteredResourceTemplate.metadata = md',
                    RegisteredResourceTemplate.listCallback = listCb,
                    RegisteredResourceTemplate.readCallback = readCb'\<rparr>\<rparr>,
               Inl (Error ''Cannot register capabilities after connecting to transport'')))"
  using assms
  by (simp add: registerResource_def registerResourceTemplate_def fresh_name
      setResourceRequestHandlers_def and_then_def
      assertCanSetRequestHandler_def registerCapabilities_def)

text \<open>
  C10. A registration under a name that is not yet registered is claimed to insert its
  entry before the handlers are installed. The name \<open>toString\<close> is not registered on
  the fresh server, but the duplicate check reads the function of that name inherited
  from \<^verbatim>\<open>Object.prototype\<close> and throws: nothing is inserted. For every other
  unregistered name the entry is inserted first and stays when the installation throws
  (\<open>failed_tool_registration_keeps_entry\<close>, \<open>attached_tool_registration\<close>,
  \<open>attached_resource_registration\<close>).
\<close>

theorem unregistered_name_not_inserted:
  "registeredTools fresh_server = [] \<and>
   tool ''toString'' (Cb ok_cb) fresh_server =
     (fresh_server, Inl (Error ''Tool toString is already registered''))"
  by (simp add: fresh_server_value server_defs js_defs)

section \<open>Registrations after the first\<close>

text \<open>
  A first tool registration, on a server with no transport attached and no handler for
  the methods of the tool registry, succeeds and installs them.
\<close>

lemma first_tool_registration:
  assumes "n \<notin> set Object_prototype_keys" "map_of (registeredTools s) n = None"
    and "tools_installable s"
  shows "tool n rest s =
           (tools_installed (s\<lparr>registeredTools := obj_set (registeredTools s) n (new_tool rest)\<rparr>),
            Inr ())"
proof -
  have "tools_installable (s\<lparr>registeredTools := obj_set (registeredTools s) n (new_tool rest)\<rparr>)"
    using assms(3) by (simp add: tools_installable_def)
  then show ?thesis
    using assms(1,2) by (simp add: tool_unfold fresh_name setToolRequestHandlers_ok)
qed

text \<open>
  After any tool registration that succeeded, a registration under a further name is
  refused by the guard, with its entry inserted and nothing else changed.
\<close>

lemma later_tool_registration_refused:
  assumes first: "tool n0 rest0 s = (s1, Inr ())"
    and fresh: "n \<notin> set Object_prototype_keys" "map_of (registeredTools s1) n = None"
  shows "tool n rest s1 =
           (s1\<lparr>registeredTools := obj_set (registeredTools s1) n (new_tool rest)\<rparr>,
            Inl (Error ''A request handler for tools/list already exists, which would be overridden''))"
proof -
  let ?s' = "s\<lparr>registeredTools := obj_set (registeredTools s) n0 (new_tool rest0)\<rparr>"
  from first have "setToolRequestHandlers ?s' = (s1, Inr ())"
    by (simp add: tool_unfold split: if_splits)
  then have "s1 = tools_installed ?s'"
    using installed_from_success by blast
  then have "requestHandlers s1 ''tools/list'' = Some ListToolsHandler"
    by (simp add: tools_installed_def)
  then have "setToolRequestHandlers
      (s1\<lparr>registeredTools := obj_set (registeredTools s1) n (new_tool rest)\<rparr>) =
      (s1\<lparr>registeredTools := obj_set (registeredTools s1) n (new_tool rest)\<rparr>,
       Inl (Error ''A request handler for tools/list already exists, which would be overridden''))"
    by (intro setToolRequestHandlers_refused) simp
  then show ?thesis
    using fresh by (simp add: tool_unfold fresh_name)
qed

lemma later_resource_registration_refused:
  assumes first: "setResourceRequestHandlers s = (s1, Inr ())"
  shows "(uri \<notin> set Object_prototype_keys \<and> map_of (registeredResources s1) uri = None \<longrightarrow>
            snd (registerResource nm uri md readCb s1) =
              Inl (Error ''A request handler for resources/list already exists, which would be overridden'')) \<and>
         (n \<notin> set Object_prototype_keys \<and> map_of (registeredResourceTemplates s1) n = None \<longrightarrow>
            snd (registerResourceTemplate n tmpl md' listCb readCb' s1) =
              Inl (Error ''A request handler for resources/list already exists, which would be overridden''))"
proof -
  have "s1 = resources_installed s"
    using resources_installed_from_success [OF first] by blast
  then have "requestHandlers s1 ''resources/list'' = Some ListResourcesHandler"
    by (simp add: resources_installed_def)
  then have "\<And>s'. requestHandlers s' = requestHandlers s1 \<Longrightarrow>
      snd (setResourceRequestHandlers s') =
        Inl (Error ''A request handler for resources/list already exists, which would be overridden'')"
    by (simp add: setResourceRequestHandlers_refused)
  then show ?thesis
    by (simp add: registerResource_def registerResourceTemplate_def fresh_name)
qed

text \<open>
  With a transport attached a registration under a new name throws whatever handlers are
  installed, at the guard or when it declares the capability, and leaves its entry.
\<close>

lemma attached_registration_fails:
  assumes "n \<notin> set Object_prototype_keys" "map_of (registeredTools s) n = None"
    and "transport s"
  shows "\<exists>e. tool n rest s =
           (s\<lparr>registeredTools := obj_set (registeredTools s) n (new_tool rest)\<rparr>, Inl e)"
proof -
  have "\<not> tools_installable (s\<lparr>registeredTools := obj_set (registeredTools s) n (new_tool rest)\<rparr>)"
    using assms(3) by (simp add: tools_installable_def)
  then show ?thesis
    using assms(1,2) setToolRequestHandlers_fails by (simp add: tool_unfold fresh_name)
qed

text \<open>
  C1. Every registration after the first of a kind is claimed to succeed and to reuse
  the handlers the first one installed. The source has no record that the handlers are
  installed: every registration asks the guard for each method of its registry, declares
  the capability and sets the handlers again. On the fresh server the first tool
  registration succeeds, and the second, under another name, is refused by the guard for
  \<open>tools/list\<close>, which has a handler by then; its entry stays in the registry. The
  same happens to a template registered after a fixed resource. On a server that has a
  transport attached, the second registration throws when it declares the capability.
\<close>

theorem later_registration_refused:
  "snd (tool ''echo'' (Cb ok_cb) fresh_server) = Inr () \<and>
   snd (tool ''add'' (Cb ok_cb) (fst (tool ''echo'' (Cb ok_cb) fresh_server))) =
     Inl (Error ''A request handler for tools/list already exists, which would be overridden'') \<and>
   map fst (registeredTools
      (fst (tool ''add'' (Cb ok_cb) (fst (tool ''echo'' (Cb ok_cb) fresh_server))))) =
     [''echo'', ''add''] \<and>
   snd (registerResource ''greeting'' ''mem://greeting'' None (answer ''hello'') fresh_server) =
     Inr () \<and>
   snd (registerResourceTemplate ''items'' mem_template None None (answer ''item'')
          (fst (registerResource ''greeting'' ''mem://greeting'' None (answer ''hello'')
             fresh_server))) =
     Inl (Error ''A request handler for resources/list already exists, which would be overridden'') \<and>
   snd (tool ''add'' (Cb ok_cb)
          (fst (tool ''echo'' (Cb ok_cb)
             (connect (new_Server (Implementation ''example'' ''1.0.0'')
                (Some [(''tools'', [])])))))) =
     Inl (Error ''Cannot register capabilities after connecting to transport'')"
  by (simp add: fresh_server_value server_defs js_defs)

text \<open>
  A name inherited from \<^verbatim>\<open>Object.prototype\<close> is refused as already registered
  although it is distinct from every registered name.
\<close>

lemma inherited_name_refused:
  "snd (tool ''echo'' (Cb ok_cb) fresh_server) = Inr () \<and>
   tool ''constructor'' (Cb ok_cb) (fst (tool ''echo'' (Cb ok_cb) fresh_server)) =
     (fst (tool ''echo'' (Cb ok_cb) fresh_server),
      Inl (Error ''Tool constructor is already registered''))"
  by (simp add: fresh_server_value server_defs js_defs)

end
